theory Spec2Isabelle
  imports Main
begin

section \<open>The Consul service resolver of faas-nomad\<close>

text \<open>
  A shallow embedding of package \<open>resolver\<close> (the second file of \<open>src/main.go\<close>):
  \<open>ConsulServiceResolver\<close> with \<open>ResolveAll\<close>, \<open>Resolve\<close>, \<open>resolveInternal\<close>,
  \<open>healthServiceQuery\<close>, \<open>updateCatalog\<close>, \<open>watch\<close>, \<open>reset\<close> and \<open>balance\<close>.

  The resolver is a Go object that is mutated in place; here every method takes the
  resolver and returns the updated one. The goroutines started by \<open>NewConsulResolver\<close>
  are modelled one at a time: \<open>watch\<close> as a function of the values its channel delivers
  before it is closed, \<open>reset\<close> as a function of the ticks its ticker delivers. Their
  interleaving with callers is outside this development.

  The consul-template library (\<open>dependency\<close>, \<open>watch\<close>) and \<open>math/rand\<close> are not part of
  the repository. The queries, their string form, the catalog's answers and the random
  number generator are parameters; the calls the resolver makes on the library's objects
  are recorded in those objects.
\<close>

subsection \<open>Go values\<close>

text \<open>
  A Go call either returns or panics. A panic in any goroutine ends the process, so a
  panicked call leaves no state behind.
\<close>

datatype 'a outcome = Panicked | Returned 'a

text \<open>
  Go's \<open>error\<close> values seen by the resolver: those handed back by the consul-template
  library (of a type \<open>'e\<close> this development does not look into), and those the package
  creates itself with \<open>fmt.Errorf\<close>.
\<close>

datatype 'e error = External 'e | Errorf string

text \<open>\<open>strings.HasSuffix\<close> and \<open>strings.TrimSuffix\<close>.\<close>

definition HasSuffix :: "string \<Rightarrow> string \<Rightarrow> bool" where
  "HasSuffix s suffix =
     (length s \<ge> length suffix \<and> drop (length s - length suffix) s = suffix)"

definition TrimSuffix :: "string \<Rightarrow> string \<Rightarrow> string" where
  "TrimSuffix s suffix =
     (if HasSuffix s suffix then take (length s - length suffix) s else s)"

text \<open>The verb \<open>%v\<close> of \<open>fmt.Sprintf\<close> on an \<open>int\<close>: decimal digits, with a sign when negative.\<close>

fun decimal :: "nat \<Rightarrow> string" where
  "decimal n =
     (if n < 10 then [''0123456789'' ! n]
      else decimal (n div 10) @ [''0123456789'' ! (n mod 10)])"

declare decimal.simps [simp del]

definition Sprint_int :: "int \<Rightarrow> string" where
  "Sprint_int i = (if i < 0 then ''-'' @ decimal (nat (- i)) else decimal (nat i))"

subsection \<open>The library's data\<close>

text \<open>
  \<open>api.HealthCheck\<close> and \<open>dependency.HealthService\<close>, with the fields the resolver reads
  (\<open>Address\<close>, \<open>Port\<close>, \<open>Checks\<close>); a check keeps its identifier and status.
\<close>

record HealthCheck =
  CheckID :: string
  Status :: string

record HealthService =
  Address :: string
  Port :: int
  Checks :: "HealthCheck list"

text \<open>
  A value of type \<open>interface{}\<close> as returned by \<open>Fetch\<close> and by \<open>View.Data\<close>: either its
  dynamic type is \<open>[]*dependency.HealthService\<close>, or it is anything else (\<open>nil\<close> included).
\<close>

datatype Data = HealthServices "HealthService list" | Other

text \<open>
  \<open>connect.SpiffeIDService\<close>, the only \<open>connect.CertURI\<close> the resolver builds.
\<close>

record SpiffeIDService =
  Host :: string
  Namespace :: string
  Datacenter :: string
  Service :: string

text \<open>
  The functions of package \<open>dependency\<close> the resolver calls, over an abstract type \<open>'q\<close>
  of queries: the two constructors (which parse the service name and may refuse it),
  \<open>String\<close>, and \<open>Fetch\<close>, the catalog's answer to a one-shot query.
\<close>

record ('q, 'e) dependency =
  NewHealthConnectQuery :: "string \<Rightarrow> 'e + 'q"
  NewHealthServiceQuery :: "string \<Rightarrow> 'e + 'q"
  String_of :: "'q \<Rightarrow> string"
  Fetch :: "'q \<Rightarrow> 'e + Data"

text \<open>
  \<open>dependency.ClientSet\<close>: the handle through which every \<open>Fetch\<close> goes. It records the
  queries fetched through it, oldest first.
\<close>

record 'q ClientSet =
  fetched :: "'q list"

text \<open>
  \<open>watch.Watcher\<close>: the queries passed to \<open>Add\<close>, oldest first, whether \<open>Stop\<close> was called,
  and the \<open>MaxStale\<close> it was created with (a \<open>time.Duration\<close>, in nanoseconds).
\<close>

record 'q Watcher =
  added :: "'q list"
  stopped :: bool
  MaxStale :: int

definition Millisecond :: int where
  "Millisecond = 1000000"

definition Minute :: int where
  "Minute = 60 * 1000 * Millisecond"

definition NewWatcher :: "int \<Rightarrow> 'q Watcher" where
  "NewWatcher maxStale = \<lparr>added = [], stopped = False, MaxStale = maxStale\<rparr>"

definition Add :: "'q Watcher \<Rightarrow> 'q \<Rightarrow> 'q Watcher" where
  "Add w d = w\<lparr>added := added w @ [d]\<rparr>"

definition Stop :: "'q Watcher \<Rightarrow> 'q Watcher" where
  "Stop w = w\<lparr>stopped := True\<rparr>"

subsection \<open>The resolver\<close>

text \<open>
  \<open>serviceItem\<close>; \<open>certURI\<close> is declared in the struct and never assigned, so it is always
  \<open>nil\<close>.
\<close>

record 'q serviceItem =
  serviceQuery :: 'q
  certURI :: "SpiffeIDService option"
  addresses :: "string list"

text \<open>
  \<open>ConsulServiceResolver\<close>. The \<open>sync.Map\<close> is a map from the string form of a query to
  its item. The logger is never used and is left out.
\<close>

record 'q ConsulServiceResolver =
  clientSet :: "'q ClientSet"
  watcher :: "'q Watcher"
  cache :: "string \<rightharpoonup> 'q serviceItem"
  prefix :: string
  namespace :: string
  connect :: bool

text \<open>
  \<open>NewConsulResolver\<close>: \<open>created\<close> is what \<open>CreateConsulClient\<close> returned. The two
  goroutines it starts are \<open>watch\<close> and \<open>reset\<close> below.
\<close>

definition NewConsulResolver ::
  "'e option \<Rightarrow> string \<Rightarrow> string \<Rightarrow> bool \<Rightarrow> 'e error + 'q ConsulServiceResolver" where
  "NewConsulResolver created jobPrefix ns connectAware =
     (case created of
        Some err \<Rightarrow> Inl (External err)
      | None \<Rightarrow>
          Inr \<lparr>clientSet = \<lparr>fetched = []\<rparr>,
               watcher = NewWatcher (10000 * Millisecond),
               cache = Map.empty,
               prefix = jobPrefix,
               namespace = ns,
               connect = connectAware\<rparr>)"

text \<open>
  \<open>updateCatalog\<close>. The loop over \<open>services\<close> is \<open>collect\<close>, with the slice \<open>addresses\<close>
  as its accumulator; the function returns the item and the resolver with the item
  stored.
\<close>

definition hostport :: "HealthService \<Rightarrow> string" where
  "hostport s = Address s @ '':'' @ Sprint_int (Port s)"

fun collect :: "string list \<Rightarrow> HealthService list \<Rightarrow> string list" where
  "collect addrs [] = addrs"
| "collect addrs (s # services) =
     collect (if length (Checks s) > 1 then addrs @ [hostport s] else addrs) services"

definition updateCatalog ::
  "('q, 'e) dependency \<Rightarrow> 'q ConsulServiceResolver \<Rightarrow> 'q \<Rightarrow> HealthService list
     \<Rightarrow> 'q serviceItem \<times> 'q ConsulServiceResolver" where
  "updateCatalog lib cr dep services =
     (let item = \<lparr>serviceQuery = dep, certURI = None, addresses = collect [] services\<rparr>
      in (item, cr\<lparr>cache := (cache cr)(String_of lib dep \<mapsto> item)\<rparr>))"

definition healthServiceQuery ::
  "('q, 'e) dependency \<Rightarrow> 'q ConsulServiceResolver \<Rightarrow> string \<Rightarrow> 'e + 'q" where
  "healthServiceQuery lib cr service =
     (if connect cr then NewHealthConnectQuery lib service
      else NewHealthServiceQuery lib service)"

text \<open>
  \<open>resolveInternal\<close> returns the pair of Go's three results (\<open>Inl\<close> the error, \<open>Inr\<close> the
  addresses and the certificate URI) and the resolver. The call of \<open>Fetch\<close> is recorded
  before its result is looked at; the unchecked type assertion on its result panics on
  a value that is not a list of health services.
\<close>

definition resolveInternal ::
  "('q, 'e) dependency \<Rightarrow> 'q ConsulServiceResolver \<Rightarrow> string
     \<Rightarrow> (('e error + string list \<times> SpiffeIDService) \<times> 'q ConsulServiceResolver) outcome" where
  "resolveInternal lib cr service =
     (case healthServiceQuery lib cr service of
        Inl err \<Rightarrow> Returned (Inl (External err), cr)
      | Inr query \<Rightarrow>
          let uri = \<lparr>Host = [], Namespace = namespace cr, Datacenter = ''dc1'',
                     Service = service\<rparr>
          in (case cache cr (String_of lib query) of
                Some val \<Rightarrow> Returned (Inr (addresses val, uri), cr)
              | None \<Rightarrow>
                  let cr1 = cr\<lparr>clientSet := \<lparr>fetched = fetched (clientSet cr) @ [query]\<rparr>\<rparr>
                  in (case Fetch lib query of
                        Inl err \<Rightarrow> Returned (Inl (External err), cr1)
                      | Inr (HealthServices services) \<Rightarrow>
                          let (item, cr2) = updateCatalog lib cr1 query services;
                              cr3 = cr2\<lparr>watcher := Add (watcher cr2) query\<rparr>
                          in Returned (Inr (addresses item, uri), cr3)
                      | Inr Other \<Rightarrow> Panicked)))"

definition ResolveAll ::
  "('q, 'e) dependency \<Rightarrow> 'q ConsulServiceResolver \<Rightarrow> string
     \<Rightarrow> (('e error + string list \<times> SpiffeIDService) \<times> 'q ConsulServiceResolver) outcome" where
  "ResolveAll lib cr function =
     resolveInternal lib cr (prefix cr @ TrimSuffix function (''.'' @ namespace cr))"

text \<open>
  \<open>balance\<close>. A Go slice is \<open>None\<close> when it is \<open>nil\<close>. \<open>Intn\<close> is \<open>rand.Intn\<close> on the
  state \<open>g\<close> of the global generator; the generator comes back so that a call of
  \<open>Intn\<close> can be told from none. Indexing past the end of a slice panics.
\<close>

definition NoCandidateError :: "'e error" where
  "NoCandidateError = Errorf ''no candidate available''"

definition balance ::
  "('g \<Rightarrow> nat \<Rightarrow> nat \<times> 'g) \<Rightarrow> 'g \<Rightarrow> string list option \<Rightarrow> SpiffeIDService
     \<Rightarrow> (('e error + string \<times> SpiffeIDService) \<times> 'g) outcome" where
  "balance Intn g candidates uri =
     (case candidates of
        None \<Rightarrow> Returned (Inl NoCandidateError, g)
      | Some cs \<Rightarrow>
          if length cs = 0 then Returned (Inl NoCandidateError, g)
          else
            let (idx, g') = (if length cs > 1 then Intn g (length cs) else (0, g))
            in if idx < length cs then Returned (Inr (cs ! idx, uri), g') else Panicked)"

definition Resolve ::
  "('q, 'e) dependency \<Rightarrow> ('g \<Rightarrow> nat \<Rightarrow> nat \<times> 'g) \<Rightarrow> 'q ConsulServiceResolver \<Rightarrow> 'g \<Rightarrow> string
     \<Rightarrow> (('e error + string \<times> SpiffeIDService) \<times> 'q ConsulServiceResolver \<times> 'g) outcome" where
  "Resolve lib Intn cr g function =
     (case ResolveAll lib cr function of
        Panicked \<Rightarrow> Panicked
      | Returned (Inl err, cr') \<Rightarrow> Returned (Inl err, cr', g)
      | Returned (Inr (candidates, uri), cr') \<Rightarrow>
          (case balance Intn g (Some candidates) uri of
             Panicked \<Rightarrow> Panicked
           | Returned (r, g') \<Rightarrow> Returned (r, cr', g')))"

text \<open>
  \<open>watch\<close>: the loop ranges over the data channel of the watcher; \<open>pushes\<close> are the
  values the channel delivers until it is closed, each a view with its dependency and
  its data. The type assertion on the data is unchecked.
\<close>

fun watch ::
  "('q, 'e) dependency \<Rightarrow> 'q ConsulServiceResolver \<Rightarrow> ('q \<times> Data) list
     \<Rightarrow> 'q ConsulServiceResolver outcome" where
  "watch lib cr [] = Returned cr"
| "watch lib cr ((dep, HealthServices services) # pushes) =
     watch lib (snd (updateCatalog lib cr dep services)) pushes"
| "watch lib cr ((dep, Other) # pushes) = Panicked"

text \<open>
  \<open>reset\<close>: the ticker's period, the body of the loop, and the loop over the ticks
  delivered (the loop ignores their values). The body returns the watcher it stopped,
  which the resolver no longer refers to, and the resolver.
\<close>

definition resetPeriod :: int where
  "resetPeriod = 30 * Minute"

definition reset_body :: "'q ConsulServiceResolver \<Rightarrow> 'q Watcher \<times> 'q ConsulServiceResolver" where
  "reset_body cr =
     (let old = Stop (watcher cr);
          w = NewWatcher (10000 * Millisecond)
      in (old, cr\<lparr>cache := Map.empty, watcher := w\<rparr>))"

fun reset :: "'q ConsulServiceResolver \<Rightarrow> 't list \<Rightarrow> 'q Watcher list \<times> 'q ConsulServiceResolver" where
  "reset cr [] = ([], cr)"
| "reset cr (tick # ticks) =
     (let (old, cr') = reset_body cr;
          (olds, cr'') = reset cr' ticks
      in (old # olds, cr''))"

subsection \<open>The filtering rule as the specification words it\<close>

text \<open>
  An instance is eligible iff it reports more than one health check entry; the eligible
  instances contribute \<open>address:port\<close>, in the order of the catalog's answer.
\<close>

definition spec_eligible :: "HealthService \<Rightarrow> bool" where
  "spec_eligible s = (1 < length (Checks s))"

definition spec_addresses :: "HealthService list \<Rightarrow> string list" where
  "spec_addresses services = map hostport (filter spec_eligible services)"

subsection \<open>A sample catalog\<close>

text \<open>
  An instance of the library's parameters for the worked examples: a query is its own
  string form, the constructors refuse the empty name, and \<open>catalog\<close> answers the
  fetches. The resolver is configured with prefix \<open>svc-\<close> and namespace \<open>openfaas-fn\<close>.
  \<open>sampleIntn\<close> is a generator whose state counts its calls.
\<close>

definition sampleLib :: "(string \<Rightarrow> string + Data) \<Rightarrow> (string, string) dependency" where
  "sampleLib catalog =
     \<lparr>NewHealthConnectQuery =
        (\<lambda>s. if s = [] then Inl ''empty service name''
             else Inr (''health.connect('' @ s @ '')'')),
      NewHealthServiceQuery =
        (\<lambda>s. if s = [] then Inl ''empty service name''
             else Inr (''health.service('' @ s @ '')'')),
      String_of = (\<lambda>q. q),
      Fetch = catalog\<rparr>"

definition passing :: "string \<Rightarrow> HealthCheck" where
  "passing name = \<lparr>CheckID = name, Status = ''passing''\<rparr>"

definition threeInstances :: "HealthService list" where
  "threeInstances =
     [\<lparr>Address = ''10.0.0.1'', Port = 8080, Checks = []\<rparr>,
      \<lparr>Address = ''10.0.0.2'', Port = 8081, Checks = [passing ''serfHealth'']\<rparr>,
      \<lparr>Address = ''10.0.0.3'', Port = 8082,
        Checks = [passing ''serfHealth'', passing ''http'']\<rparr>]"

definition sampleResolver :: "string ConsulServiceResolver" where
  "sampleResolver =
     \<lparr>clientSet = \<lparr>fetched = []\<rparr>,
      watcher = NewWatcher (10000 * Millisecond),
      cache = Map.empty,
      prefix = ''svc-'',
      namespace = ''openfaas-fn'',
      connect = False\<rparr>"

definition sampleIntn :: "nat \<Rightarrow> nat \<Rightarrow> nat \<times> nat" where
  "sampleIntn g n = (g mod n, Suc g)"

text \<open>
  The identity, the cache entry and the resolver after \<open>echo.openfaas-fn\<close> was resolved
  once against a catalog that answers with \<open>threeInstances\<close>.
\<close>

definition echoURI :: SpiffeIDService where
  "echoURI = \<lparr>Host = [], Namespace = ''openfaas-fn'', Datacenter = ''dc1'',
     Service = ''svc-echo''\<rparr>"

definition echoItem :: "string serviceItem" where
  "echoItem = \<lparr>serviceQuery = ''health.service(svc-echo)'', certURI = None,
     addresses = [''10.0.0.3:8082'']\<rparr>"

definition sampleResolved :: "string ConsulServiceResolver" where
  "sampleResolved =
     \<lparr>clientSet = \<lparr>fetched = [''health.service(svc-echo)'']\<rparr>,
      watcher = \<lparr>added = [''health.service(svc-echo)''], stopped = False,
                 MaxStale = 10000 * Millisecond\<rparr>,
      cache = [''health.service(svc-echo)'' \<mapsto> echoItem],
      prefix = ''svc-'',
      namespace = ''openfaas-fn'',
      connect = False\<rparr>"

text \<open>Two more answers of the catalog: one with no eligible instance, one with two.\<close>

definition unhealthyInstances :: "HealthService list" where
  "unhealthyInstances =
     [\<lparr>Address = ''10.0.0.1'', Port = 8080, Checks = []\<rparr>,
      \<lparr>Address = ''10.0.0.2'', Port = 8081, Checks = [passing ''serfHealth'']\<rparr>]"

definition movedInstances :: "HealthService list" where
  "movedInstances =
     [\<lparr>Address = ''10.0.0.4'', Port = 9000,
        Checks = [passing ''serfHealth'', passing ''http'']\<rparr>,
      \<lparr>Address = ''10.0.0.2'', Port = 8081, Checks = [passing ''serfHealth'']\<rparr>,
      \<lparr>Address = ''10.0.0.3'', Port = 8082,
        Checks = [passing ''serfHealth'', passing ''http'']\<rparr>]"

section \<open>Properties\<close>

subsection \<open>Auxiliary facts\<close>

lemma collect_append:
  "collect addrs services = addrs @ map hostport (filter spec_eligible services)"
  by (induction services arbitrary: addrs) (simp_all add: spec_eligible_def)

lemma collect_spec: "collect [] services = spec_addresses services"
  by (simp add: collect_append spec_addresses_def)

lemma TrimSuffix_append: "TrimSuffix (name @ suffix) suffix = name"
  by (simp add: TrimSuffix_def HasSuffix_def)

lemma TrimSuffix_other: "\<not> HasSuffix s suffix \<Longrightarrow> TrimSuffix s suffix = s"
  by (simp add: TrimSuffix_def)

lemma trim_echo: "TrimSuffix ''echo.openfaas-fn'' ''.openfaas-fn'' = ''echo''"
  by (simp add: TrimSuffix_def HasSuffix_def)

lemma spec_threeInstances: "spec_addresses threeInstances = [''10.0.0.3:8082'']"
  by (simp add: spec_addresses_def threeInstances_def spec_eligible_def hostport_def
      passing_def Sprint_int_def decimal.simps)

lemma updateCatalog_item:
  "updateCatalog lib cr dep services =
     (\<lparr>serviceQuery = dep, certURI = None, addresses = spec_addresses services\<rparr>,
      cr\<lparr>cache := (cache cr)(String_of lib dep \<mapsto>
            \<lparr>serviceQuery = dep, certURI = None, addresses = spec_addresses services\<rparr>)\<rparr>)"
  by (simp add: updateCatalog_def collect_spec Let_def)

lemma resolveInternal_hit:
  assumes "healthServiceQuery lib cr service = Inr q"
    and "cache cr (String_of lib q) = Some item"
  shows "resolveInternal lib cr service =
    Returned (Inr (addresses item,
      \<lparr>Host = [], Namespace = namespace cr, Datacenter = ''dc1'', Service = service\<rparr>), cr)"
  using assms by (simp add: resolveInternal_def Let_def)

lemma resolveInternal_miss:
  assumes "healthServiceQuery lib cr service = Inr q"
    and "cache cr (String_of lib q) = None"
    and "Fetch lib q = Inr (HealthServices services)"
  shows "resolveInternal lib cr service =
    Returned (Inr (spec_addresses services,
      \<lparr>Host = [], Namespace = namespace cr, Datacenter = ''dc1'', Service = service\<rparr>),
      cr\<lparr>clientSet := \<lparr>fetched = fetched (clientSet cr) @ [q]\<rparr>,
         cache := (cache cr)(String_of lib q \<mapsto>
            \<lparr>serviceQuery = q, certURI = None, addresses = spec_addresses services\<rparr>),
         watcher := Add (watcher cr) q\<rparr>)"
  using assms by (simp add: resolveInternal_def updateCatalog_item Let_def)

lemma resolveInternal_fetch_error:
  assumes "healthServiceQuery lib cr service = Inr q"
    and "cache cr (String_of lib q) = None"
    and "Fetch lib q = Inl err"
  shows "resolveInternal lib cr service =
    Returned (Inl (External err), cr\<lparr>clientSet := \<lparr>fetched = fetched (clientSet cr) @ [q]\<rparr>\<rparr>)"
  using assms by (simp add: resolveInternal_def Let_def)

subsection \<open>Catalog snapshots\<close>

text \<open>
  Claim C1. Whenever a catalog snapshot is applied, the stored item's addresses are the
  \<open>address:port\<close> strings of exactly the instances with more than one health check
  entry, in the catalog's order. \<open>updateCatalog\<close> computes and stores them; the watch
  loop applies \<open>updateCatalog\<close> to a delivered snapshot; the one-shot fetch of a cache
  miss returns and stores them too.
\<close>

theorem snapshot_filter_in_order:
  "fst (updateCatalog lib cr dep services) =
      \<lparr>serviceQuery = dep, certURI = None, addresses = spec_addresses services\<rparr>
   \<and> cache (snd (updateCatalog lib cr dep services)) (String_of lib dep) =
      Some \<lparr>serviceQuery = dep, certURI = None, addresses = spec_addresses services\<rparr>
   \<and> watch lib cr [(dep, HealthServices services)] =
      Returned (snd (updateCatalog lib cr dep services))
   \<and> (healthServiceQuery lib cr service = Inr dep \<and> cache cr (String_of lib dep) = None
        \<and> Fetch lib dep = Inr (HealthServices services) \<longrightarrow>
      (\<exists>uri cr'. resolveInternal lib cr service =
          Returned (Inr (spec_addresses services, uri), cr')
        \<and> cache cr' (String_of lib dep) =
          Some \<lparr>serviceQuery = dep, certURI = None, addresses = spec_addresses services\<rparr>))"
proof -
  have "healthServiceQuery lib cr service = Inr dep \<Longrightarrow> cache cr (String_of lib dep) = None
        \<Longrightarrow> Fetch lib dep = Inr (HealthServices services) \<Longrightarrow>
      (\<exists>uri cr'. resolveInternal lib cr service =
          Returned (Inr (spec_addresses services, uri), cr')
        \<and> cache cr' (String_of lib dep) =
          Some \<lparr>serviceQuery = dep, certURI = None, addresses = spec_addresses services\<rparr>)"
    by (simp add: resolveInternal_miss)
  then show ?thesis
    by (simp add: updateCatalog_item)
qed

lemma sample_NewConsulResolver:
  "NewConsulResolver None ''svc-'' ''openfaas-fn'' False =
     (Inr sampleResolver :: string error + string ConsulServiceResolver)"
  by (simp add: NewConsulResolver_def sampleResolver_def)

lemma sample_query:
  "healthServiceQuery (sampleLib c) sampleResolver ''svc-echo'' = Inr ''health.service(svc-echo)''"
  by (simp add: healthServiceQuery_def sampleLib_def sampleResolver_def)

theorem snapshot_filter_in_order_witness:
  "spec_addresses threeInstances = [''10.0.0.3:8082'']
   \<and> healthServiceQuery (sampleLib (\<lambda>q. Inr (HealthServices threeInstances))) sampleResolver
        ''svc-echo'' = Inr ''health.service(svc-echo)''
   \<and> cache sampleResolver ''health.service(svc-echo)'' = None
   \<and> Fetch (sampleLib (\<lambda>q. Inr (HealthServices threeInstances))) ''health.service(svc-echo)''
        = Inr (HealthServices threeInstances)
   \<and> (\<exists>uri cr'. resolveInternal (sampleLib (\<lambda>q. Inr (HealthServices threeInstances)))
          sampleResolver ''svc-echo'' = Returned (Inr ([''10.0.0.3:8082''], uri), cr')
        \<and> cache cr' ''health.service(svc-echo)'' =
          Some \<lparr>serviceQuery = ''health.service(svc-echo)'', certURI = None,
                addresses = [''10.0.0.3:8082'']\<rparr>)"
proof -
  let ?lib = "sampleLib (\<lambda>q. Inr (HealthServices threeInstances))"
  have s: "String_of ?lib = (\<lambda>q. q)" by (simp add: sampleLib_def)
  have q: "healthServiceQuery ?lib sampleResolver ''svc-echo'' = Inr ''health.service(svc-echo)''"
    by (rule sample_query)
  have m: "cache sampleResolver ''health.service(svc-echo)'' = None"
    by (simp add: sampleResolver_def)
  have f: "Fetch ?lib ''health.service(svc-echo)'' = Inr (HealthServices threeInstances)"
    by (simp add: sampleLib_def)
  show ?thesis
    using snapshot_filter_in_order [of ?lib sampleResolver "''health.service(svc-echo)''"
        threeInstances "''svc-echo''"] q m f
    by (simp add: s spec_threeInstances)
qed

subsection \<open>Cache miss, then cache hit\<close>

lemma ResolveAll_miss:
  assumes "healthServiceQuery lib cr (prefix cr @ TrimSuffix S (''.'' @ namespace cr)) = Inr q"
    and "cache cr (String_of lib q) = None"
    and "Fetch lib q = Inr (HealthServices services)"
  shows "ResolveAll lib cr S =
    Returned (Inr (spec_addresses services,
      \<lparr>Host = [], Namespace = namespace cr, Datacenter = ''dc1'',
        Service = prefix cr @ TrimSuffix S (''.'' @ namespace cr)\<rparr>),
      cr\<lparr>clientSet := \<lparr>fetched = fetched (clientSet cr) @ [q]\<rparr>,
         cache := (cache cr)(String_of lib q \<mapsto>
            \<lparr>serviceQuery = q, certURI = None, addresses = spec_addresses services\<rparr>),
         watcher := Add (watcher cr) q\<rparr>)"
  unfolding ResolveAll_def using assms by (rule resolveInternal_miss)

lemma ResolveAll_hit:
  assumes "healthServiceQuery lib cr (prefix cr @ TrimSuffix S (''.'' @ namespace cr)) = Inr q"
    and "cache cr (String_of lib q) = Some item"
  shows "ResolveAll lib cr S =
    Returned (Inr (addresses item,
      \<lparr>Host = [], Namespace = namespace cr, Datacenter = ''dc1'',
        Service = prefix cr @ TrimSuffix S (''.'' @ namespace cr)\<rparr>), cr)"
  unfolding ResolveAll_def using assms by (rule resolveInternal_hit)

lemma ResolveAll_fetch_error:
  assumes "healthServiceQuery lib cr (prefix cr @ TrimSuffix S (''.'' @ namespace cr)) = Inr q"
    and "cache cr (String_of lib q) = None"
    and "Fetch lib q = Inl err"
  shows "ResolveAll lib cr S =
    Returned (Inl (External err), cr\<lparr>clientSet := \<lparr>fetched = fetched (clientSet cr) @ [q]\<rparr>\<rparr>)"
  unfolding ResolveAll_def using assms by (rule resolveInternal_fetch_error)

text \<open>
  Claim C2. For a service name whose query is not in the cache, and a catalog that
  answers, the first \<open>ResolveAll\<close> fetches exactly once (one query more in the record
  of fetches), stores the filtered item under the query's key and adds the query to the
  watcher; a second \<open>ResolveAll\<close> right after returns the same addresses and leaves
  the resolver as it is, whatever the catalog would answer now: it does not fetch.
\<close>

theorem first_resolve_fetches_once_then_cache_hit:
  assumes q: "healthServiceQuery lib cr (prefix cr @ TrimSuffix S (''.'' @ namespace cr)) = Inr q"
    and miss: "cache cr (String_of lib q) = None"
    and fetch: "Fetch lib q = Inr (HealthServices services)"
  shows "\<exists>uri cr1.
    ResolveAll lib cr S = Returned (Inr (spec_addresses services, uri), cr1)
    \<and> fetched (clientSet cr1) = fetched (clientSet cr) @ [q]
    \<and> cache cr1 = (cache cr)(String_of lib q \<mapsto>
          \<lparr>serviceQuery = q, certURI = None, addresses = spec_addresses services\<rparr>)
    \<and> added (watcher cr1) = added (watcher cr) @ [q]
    \<and> (\<forall>catalog'. ResolveAll (lib\<lparr>Fetch := catalog'\<rparr>) cr1 S =
          Returned (Inr (spec_addresses services, uri), cr1))"
proof -
  let ?item = "\<lparr>serviceQuery = q, certURI = None, addresses = spec_addresses services\<rparr>"
  let ?uri = "\<lparr>Host = [], Namespace = namespace cr, Datacenter = ''dc1'',
        Service = prefix cr @ TrimSuffix S (''.'' @ namespace cr)\<rparr>"
  define cr1 where "cr1 = cr\<lparr>clientSet := \<lparr>fetched = fetched (clientSet cr) @ [q]\<rparr>,
         cache := (cache cr)(String_of lib q \<mapsto> ?item),
         watcher := Add (watcher cr) q\<rparr>"
  have first: "ResolveAll lib cr S = Returned (Inr (spec_addresses services, ?uri), cr1)"
    unfolding cr1_def using q miss fetch by (rule ResolveAll_miss)
  have second: "ResolveAll (lib\<lparr>Fetch := catalog'\<rparr>) cr1 S =
      Returned (Inr (spec_addresses services, ?uri), cr1)" for catalog'
  proof -
    have q': "healthServiceQuery (lib\<lparr>Fetch := catalog'\<rparr>) cr1
        (prefix cr1 @ TrimSuffix S (''.'' @ namespace cr1)) = Inr q"
      using q by (simp add: cr1_def healthServiceQuery_def split: if_splits)
    have hit: "cache cr1 (String_of (lib\<lparr>Fetch := catalog'\<rparr>) q) = Some ?item"
      by (simp add: cr1_def)
    show ?thesis
      using ResolveAll_hit [OF q' hit] by (simp add: cr1_def)
  qed
  have "fetched (clientSet cr1) = fetched (clientSet cr) @ [q]"
    and "cache cr1 = (cache cr)(String_of lib q \<mapsto> ?item)"
    and "added (watcher cr1) = added (watcher cr) @ [q]"
    by (simp_all add: cr1_def Add_def)
  with first second show ?thesis by blast
qed

lemma sample_normalized:
  "prefix sampleResolver @ TrimSuffix ''echo.openfaas-fn'' (''.'' @ namespace sampleResolver)
     = ''svc-echo''"
  by (simp add: sampleResolver_def trim_echo)

lemma sample_normalized':
  "prefix sampleResolved @ TrimSuffix ''echo.openfaas-fn'' (''.'' @ namespace sampleResolved)
     = ''svc-echo''"
  by (simp add: sampleResolved_def trim_echo)

lemma sample_query':
  "healthServiceQuery (sampleLib c) sampleResolved ''svc-echo'' = Inr ''health.service(svc-echo)''"
  by (simp add: healthServiceQuery_def sampleLib_def sampleResolved_def)

lemma sample_String_of: "String_of (sampleLib c) q = q"
  by (simp add: sampleLib_def)

lemma sample_Fetch: "Fetch (sampleLib c) q = c q"
  by (simp add: sampleLib_def)

lemma sample_first:
  "ResolveAll (sampleLib (\<lambda>q. Inr (HealthServices threeInstances))) sampleResolver
      ''echo.openfaas-fn'' = Returned (Inr ([''10.0.0.3:8082''], echoURI), sampleResolved)"
proof -
  let ?lib = "sampleLib (\<lambda>q. Inr (HealthServices threeInstances))"
  have q: "healthServiceQuery ?lib sampleResolver
      (prefix sampleResolver @ TrimSuffix ''echo.openfaas-fn'' (''.'' @ namespace sampleResolver))
      = Inr ''health.service(svc-echo)''"
    unfolding sample_normalized by (rule sample_query)
  have m: "cache sampleResolver (String_of ?lib ''health.service(svc-echo)'') = None"
    by (simp add: sampleResolver_def)
  have f: "Fetch ?lib ''health.service(svc-echo)'' = Inr (HealthServices threeInstances)"
    by (simp add: sample_Fetch)
  show ?thesis
    unfolding ResolveAll_miss [OF q m f] sample_normalized
    by (simp add: spec_threeInstances sample_String_of echoURI_def sampleResolved_def
        sampleResolver_def NewWatcher_def Add_def echoItem_def)
qed

theorem first_resolve_fetches_once_then_cache_hit_witness:
  "healthServiceQuery (sampleLib (\<lambda>q. Inr (HealthServices threeInstances))) sampleResolver
      (prefix sampleResolver @ TrimSuffix ''echo.openfaas-fn'' (''.'' @ namespace sampleResolver))
      = Inr ''health.service(svc-echo)''
   \<and> cache sampleResolver
        (String_of (sampleLib (\<lambda>q. Inr (HealthServices threeInstances)))
           ''health.service(svc-echo)'') = None
   \<and> Fetch (sampleLib (\<lambda>q. Inr (HealthServices threeInstances))) ''health.service(svc-echo)''
        = Inr (HealthServices threeInstances)
   \<and> ResolveAll (sampleLib (\<lambda>q. Inr (HealthServices threeInstances))) sampleResolver
        ''echo.openfaas-fn'' = Returned (Inr ([''10.0.0.3:8082''], echoURI), sampleResolved)
   \<and> fetched (clientSet sampleResolved) = [''health.service(svc-echo)'']
   \<and> added (watcher sampleResolved) = [''health.service(svc-echo)'']
   \<and> ResolveAll (sampleLib (\<lambda>q. Inl ''connection refused'')) sampleResolved
        ''echo.openfaas-fn'' = Returned (Inr ([''10.0.0.3:8082''], echoURI), sampleResolved)"
proof -
  let ?lib = "sampleLib (\<lambda>q. Inr (HealthServices threeInstances))"
  have q: "healthServiceQuery ?lib sampleResolver
      (prefix sampleResolver @ TrimSuffix ''echo.openfaas-fn'' (''.'' @ namespace sampleResolver))
      = Inr ''health.service(svc-echo)''"
    unfolding sample_normalized by (rule sample_query)
  have m: "cache sampleResolver (String_of ?lib ''health.service(svc-echo)'') = None"
    by (simp add: sampleResolver_def)
  have f: "Fetch ?lib ''health.service(svc-echo)'' = Inr (HealthServices threeInstances)"
    by (simp add: sample_Fetch)
  have l: "?lib\<lparr>Fetch := \<lambda>q. Inl ''connection refused''\<rparr> = sampleLib (\<lambda>q. Inl ''connection refused'')"
    by (simp add: sampleLib_def)
  from first_resolve_fetches_once_then_cache_hit [OF q m f]
  obtain uri cr1 where
    1: "ResolveAll ?lib sampleResolver ''echo.openfaas-fn'' =
          Returned (Inr (spec_addresses threeInstances, uri), cr1)"
    and 2: "fetched (clientSet cr1) = fetched (clientSet sampleResolver) @ [''health.service(svc-echo)'']"
    and 3: "added (watcher cr1) = added (watcher sampleResolver) @ [''health.service(svc-echo)'']"
    and 4: "\<forall>catalog'. ResolveAll (?lib\<lparr>Fetch := catalog'\<rparr>) cr1 ''echo.openfaas-fn'' =
          Returned (Inr (spec_addresses threeInstances, uri), cr1)"
    by blast
  from 1 have u: "uri = echoURI" and c: "cr1 = sampleResolved"
    by (simp_all add: sample_first)
  from 4 have 5: "ResolveAll (sampleLib (\<lambda>q. Inl ''connection refused'')) sampleResolved
        ''echo.openfaas-fn'' = Returned (Inr ([''10.0.0.3:8082''], echoURI), sampleResolved)"
    unfolding u c spec_threeInstances using l by metis
  from 2 3 have 6: "fetched (clientSet sampleResolved) = [''health.service(svc-echo)'']"
    "added (watcher sampleResolved) = [''health.service(svc-echo)'']"
    unfolding c by (simp_all add: sampleResolver_def NewWatcher_def)
  show ?thesis
    using q m f sample_first 5 6 by simp
qed

subsection \<open>Normalisation and identity\<close>

text \<open>
  Claim C3. \<open>ResolveAll\<close> strips the suffix \<open>.namespace\<close> from the function name
  (and leaves a name without that suffix as it is), puts the prefix in front, and
  resolves that service name. Whenever it returns addresses, on the cache-hit path as
  on the cache-miss path, the identity is the configured namespace, datacenter \<open>dc1\<close>
  and that service name, and the query built from that service name is the one whose
  item is in the cache. With prefix \<open>svc-\<close> and namespace \<open>openfaas-fn\<close>,
  \<open>echo.openfaas-fn\<close> gives service \<open>svc-echo\<close> (the witness, on both paths).
\<close>

theorem ResolveAll_normalizes_and_names_identity:
  "ResolveAll lib cr (name @ ''.'' @ namespace cr) = resolveInternal lib cr (prefix cr @ name)
   \<and> (\<not> HasSuffix function (''.'' @ namespace cr) \<longrightarrow>
        ResolveAll lib cr function = resolveInternal lib cr (prefix cr @ function))
   \<and> (ResolveAll lib cr function = Returned (Inr (addrs, uri), cr') \<longrightarrow>
        uri = \<lparr>Host = [], Namespace = namespace cr, Datacenter = ''dc1'',
               Service = prefix cr @ TrimSuffix function (''.'' @ namespace cr)\<rparr>
        \<and> (\<exists>q. healthServiceQuery lib cr
                  (prefix cr @ TrimSuffix function (''.'' @ namespace cr)) = Inr q
               \<and> (\<exists>item. cache cr' (String_of lib q) = Some item \<and> addresses item = addrs)))"
proof -
  have a: "ResolveAll lib cr (name @ ''.'' @ namespace cr) = resolveInternal lib cr (prefix cr @ name)"
    by (simp add: ResolveAll_def TrimSuffix_append)
  have b: "\<not> HasSuffix function (''.'' @ namespace cr) \<Longrightarrow>
        ResolveAll lib cr function = resolveInternal lib cr (prefix cr @ function)"
    by (simp add: ResolveAll_def TrimSuffix_other)
  have c: "uri = \<lparr>Host = [], Namespace = namespace cr, Datacenter = ''dc1'', Service = service\<rparr>
        \<and> (\<exists>q. healthServiceQuery lib cr service = Inr q
               \<and> (\<exists>item. cache cr' (String_of lib q) = Some item \<and> addresses item = addrs))"
    if "resolveInternal lib cr service = Returned (Inr (addrs, uri), cr')" for service
    using that
    by (auto simp: resolveInternal_def Let_def updateCatalog_item
        split: sum.splits option.splits Data.splits)
  from a b c show ?thesis
    unfolding ResolveAll_def by blast
qed

theorem ResolveAll_normalizes_and_names_identity_witness:
  "\<not> HasSuffix ''echo'' (''.'' @ namespace sampleResolver)
   \<and> ResolveAll (sampleLib (\<lambda>q. Inr (HealthServices threeInstances))) sampleResolver ''echo''
       = resolveInternal (sampleLib (\<lambda>q. Inr (HealthServices threeInstances))) sampleResolver
           ''svc-echo''
   \<and> ResolveAll (sampleLib (\<lambda>q. Inr (HealthServices threeInstances))) sampleResolver
        ''echo.openfaas-fn'' = Returned (Inr ([''10.0.0.3:8082''], echoURI), sampleResolved)
   \<and> ResolveAll (sampleLib (\<lambda>q. Inr (HealthServices threeInstances))) sampleResolved
        ''echo.openfaas-fn'' = Returned (Inr ([''10.0.0.3:8082''], echoURI), sampleResolved)
   \<and> echoURI = \<lparr>Host = [], Namespace = ''openfaas-fn'', Datacenter = ''dc1'',
         Service = ''svc-echo''\<rparr>"
proof -
  let ?lib = "sampleLib (\<lambda>q. Inr (HealthServices threeInstances))"
  have n: "\<not> HasSuffix ''echo'' (''.'' @ namespace sampleResolver)"
    by (simp add: HasSuffix_def sampleResolver_def)
  have p: "prefix sampleResolver @ ''echo'' = ''svc-echo''"
    by (simp add: sampleResolver_def)
  have q: "healthServiceQuery ?lib sampleResolved
      (prefix sampleResolved @ TrimSuffix ''echo.openfaas-fn'' (''.'' @ namespace sampleResolved))
      = Inr ''health.service(svc-echo)''"
    unfolding sample_normalized' by (rule sample_query')
  have h: "cache sampleResolved (String_of ?lib ''health.service(svc-echo)'') = Some echoItem"
    by (simp add: sampleResolved_def sample_String_of)
  have second: "ResolveAll ?lib sampleResolved ''echo.openfaas-fn'' =
      Returned (Inr ([''10.0.0.3:8082''], echoURI), sampleResolved)"
    unfolding ResolveAll_hit [OF q h] sample_normalized'
    by (simp add: echoItem_def echoURI_def sampleResolved_def)
  note T1 = ResolveAll_normalizes_and_names_identity
    [of ?lib sampleResolver "''echo''" "''echo''" "[''10.0.0.3:8082'']" echoURI sampleResolved]
  note T2 = ResolveAll_normalizes_and_names_identity
    [of ?lib sampleResolved "''echo''" "''echo.openfaas-fn''" "[''10.0.0.3:8082'']" echoURI
      sampleResolved]
  from T1 n p have first: "ResolveAll ?lib sampleResolver ''echo'' =
      resolveInternal ?lib sampleResolver ''svc-echo''"
    by simp
  from T2 second have "echoURI = \<lparr>Host = [], Namespace = namespace sampleResolved,
      Datacenter = ''dc1'',
      Service = prefix sampleResolved @ TrimSuffix ''echo.openfaas-fn''
        (''.'' @ namespace sampleResolved)\<rparr>"
    by blast
  then have u: "echoURI = \<lparr>Host = [], Namespace = ''openfaas-fn'', Datacenter = ''dc1'',
         Service = ''svc-echo''\<rparr>"
    unfolding sample_normalized' by (simp add: sampleResolved_def)
  show ?thesis
    using n first sample_first second u by blast
qed

subsection \<open>The selector\<close>

text \<open>
  Claim C4. On a non-empty list, for every index that \<open>rand.Intn\<close> can return (one
  below the length), \<open>balance\<close> returns a member of the list; on a list of one element
  it returns that element and the generator as it was, whatever \<open>rand.Intn\<close> would do:
  it does not call it.
\<close>

theorem balance_picks_a_member:
  "(cs \<noteq> [] \<and> fst (Intn g (length cs)) < length cs \<longrightarrow>
      (\<exists>a g'. balance Intn g (Some cs) uri = Returned (Inr (a, uri), g') \<and> a \<in> set cs))
   \<and> balance Intn g (Some [a]) uri = Returned (Inr (a, uri), g)"
proof -
  have "\<exists>a g'. balance Intn g (Some cs) uri = Returned (Inr (a, uri), g') \<and> a \<in> set cs"
    if "cs \<noteq> []" and "fst (Intn g (length cs)) < length cs"
  proof (cases "1 < length cs")
    case True
    obtain idx g' where i: "Intn g (length cs) = (idx, g')"
      by (cases "Intn g (length cs)")
    with that have "idx < length cs" by simp
    with True i that have "balance Intn g (Some cs) uri = Returned (Inr (cs ! idx, uri), g')"
      by (simp add: balance_def)
    moreover from \<open>idx < length cs\<close> have "cs ! idx \<in> set cs" by simp
    ultimately show ?thesis by blast
  next
    case False
    with that obtain x where "cs = [x]"
      by (cases cs) auto
    then show ?thesis by (simp add: balance_def)
  qed
  moreover have "balance Intn g (Some [a]) uri = Returned (Inr (a, uri), g)"
    by (simp add: balance_def)
  ultimately show ?thesis by blast
qed

theorem balance_picks_a_member_witness:
  "[''10.0.0.3:8082'', ''10.0.0.4:9000'', ''10.0.0.5:9001''] \<noteq> []
   \<and> fst (sampleIntn 7 (length [''10.0.0.3:8082'', ''10.0.0.4:9000'', ''10.0.0.5:9001''])) < 3
   \<and> balance sampleIntn 7 (Some [''10.0.0.3:8082'', ''10.0.0.4:9000'', ''10.0.0.5:9001''])
        echoURI = (Returned (Inr (''10.0.0.4:9000'', echoURI), 8)
          :: ((string error + string \<times> SpiffeIDService) \<times> nat) outcome)
   \<and> balance sampleIntn 7 (Some [''10.0.0.3:8082'']) echoURI =
        (Returned (Inr (''10.0.0.3:8082'', echoURI), 7)
          :: ((string error + string \<times> SpiffeIDService) \<times> nat) outcome)"
  using balance_picks_a_member [of "[''10.0.0.3:8082'', ''10.0.0.4:9000'', ''10.0.0.5:9001'']"
      sampleIntn 7 echoURI "''10.0.0.3:8082''"]
  by (simp add: balance_def sampleIntn_def)

subsection \<open>Errors\<close>

lemma spec_unhealthyInstances: "spec_addresses unhealthyInstances = []"
  by (simp add: spec_addresses_def unhealthyInstances_def spec_eligible_def passing_def)

lemma sample_miss_query:
  "healthServiceQuery (sampleLib c) sampleResolver
      (prefix sampleResolver @ TrimSuffix ''echo.openfaas-fn'' (''.'' @ namespace sampleResolver))
      = Inr ''health.service(svc-echo)''"
  unfolding sample_normalized by (rule sample_query)

lemma sample_miss: "cache sampleResolver (String_of (sampleLib c) ''health.service(svc-echo)'') = None"
  by (simp add: sampleResolver_def)

text \<open>
  Claim C5. \<open>balance\<close> on a \<open>nil\<close> or empty list returns the error
  \<open>no candidate available\<close> (it returns: it does not panic), so \<open>Resolve\<close> returns
  that error whenever \<open>ResolveAll\<close> resolves to the empty list; the error is not one
  handed back by the catalog library.
\<close>

theorem no_candidate_is_an_error:
  "balance Intn g None uri = Returned (Inl (NoCandidateError :: 'e error), g)
   \<and> balance Intn g (Some []) uri = Returned (Inl (NoCandidateError :: 'e error), g)
   \<and> (ResolveAll lib cr function = Returned (Inr ([], uri), cr') \<longrightarrow>
        Resolve lib Intn cr g function = Returned (Inl (NoCandidateError :: 'e error), cr', g))
   \<and> (NoCandidateError :: 'e error) \<noteq> External e"
  by (simp add: balance_def Resolve_def NoCandidateError_def)

theorem no_candidate_is_an_error_witness:
  "ResolveAll (sampleLib (\<lambda>q. Inr (HealthServices unhealthyInstances))) sampleResolver
      ''echo.openfaas-fn'' =
     Returned (Inr ([], echoURI),
       sampleResolved\<lparr>cache := [''health.service(svc-echo)'' \<mapsto> echoItem\<lparr>addresses := []\<rparr>]\<rparr>)
   \<and> Resolve (sampleLib (\<lambda>q. Inr (HealthServices unhealthyInstances))) sampleIntn
        sampleResolver 7 ''echo.openfaas-fn'' =
     Returned (Inl (Errorf ''no candidate available''),
       sampleResolved\<lparr>cache := [''health.service(svc-echo)'' \<mapsto> echoItem\<lparr>addresses := []\<rparr>]\<rparr>,
       7)"
proof -
  let ?lib = "sampleLib (\<lambda>q. Inr (HealthServices unhealthyInstances))"
  let ?cr' = "sampleResolved\<lparr>cache := [''health.service(svc-echo)'' \<mapsto> echoItem\<lparr>addresses := []\<rparr>]\<rparr>"
  have f: "Fetch ?lib ''health.service(svc-echo)'' = Inr (HealthServices unhealthyInstances)"
    by (simp add: sample_Fetch)
  have r: "ResolveAll ?lib sampleResolver ''echo.openfaas-fn'' = Returned (Inr ([], echoURI), ?cr')"
    unfolding ResolveAll_miss [OF sample_miss_query sample_miss f] sample_normalized
    by (simp add: spec_unhealthyInstances sample_String_of echoURI_def sampleResolved_def
        sampleResolver_def NewWatcher_def Add_def echoItem_def)
  from no_candidate_is_an_error [of sampleIntn 7 echoURI ?lib sampleResolver
      "''echo.openfaas-fn''" ?cr'] r
  have "Resolve ?lib sampleIntn sampleResolver 7 ''echo.openfaas-fn'' =
      Returned (Inl NoCandidateError, ?cr', 7)"
    by simp
  with r show ?thesis
    by (simp add: NoCandidateError_def)
qed

text \<open>
  Claim C6. On a cache miss whose one-shot fetch fails, \<open>ResolveAll\<close> returns the
  library's error as it is, having fetched once and no more; \<open>Resolve\<close> returns the
  same error, which is not the no-candidate error.
\<close>

theorem fetch_error_is_propagated_without_retry:
  assumes q: "healthServiceQuery lib cr (prefix cr @ TrimSuffix S (''.'' @ namespace cr)) = Inr q"
    and miss: "cache cr (String_of lib q) = None"
    and fetch: "Fetch lib q = Inl err"
  shows "\<exists>cr'. ResolveAll lib cr S = Returned (Inl (External err), cr')
    \<and> fetched (clientSet cr') = fetched (clientSet cr) @ [q]
    \<and> Resolve lib Intn cr g S = Returned (Inl (External err), cr', g)
    \<and> External err \<noteq> (NoCandidateError :: 'e error)"
proof -
  let ?cr' = "cr\<lparr>clientSet := \<lparr>fetched = fetched (clientSet cr) @ [q]\<rparr>\<rparr>"
  have r: "ResolveAll lib cr S = Returned (Inl (External err), ?cr')"
    using q miss fetch by (rule ResolveAll_fetch_error)
  then have "Resolve lib Intn cr g S = Returned (Inl (External err), ?cr', g)"
    by (simp add: Resolve_def)
  moreover have "fetched (clientSet ?cr') = fetched (clientSet cr) @ [q]"
    by simp
  moreover have "External err \<noteq> (NoCandidateError :: 'e error)"
    by (simp add: NoCandidateError_def)
  ultimately show ?thesis
    using r by blast
qed

theorem fetch_error_is_propagated_without_retry_witness:
  "healthServiceQuery (sampleLib (\<lambda>q. Inl ''connection refused'')) sampleResolver
      (prefix sampleResolver @ TrimSuffix ''echo.openfaas-fn'' (''.'' @ namespace sampleResolver))
      = Inr ''health.service(svc-echo)''
   \<and> cache sampleResolver
        (String_of (sampleLib (\<lambda>q. Inl ''connection refused'')) ''health.service(svc-echo)'')
        = None
   \<and> Fetch (sampleLib (\<lambda>q. Inl ''connection refused'')) ''health.service(svc-echo)''
        = Inl ''connection refused''
   \<and> (\<exists>cr'. ResolveAll (sampleLib (\<lambda>q. Inl ''connection refused'')) sampleResolver
          ''echo.openfaas-fn'' = Returned (Inl (External ''connection refused''), cr')
        \<and> fetched (clientSet cr') = [''health.service(svc-echo)'']
        \<and> Resolve (sampleLib (\<lambda>q. Inl ''connection refused'')) sampleIntn sampleResolver 7
            ''echo.openfaas-fn'' = Returned (Inl (External ''connection refused''), cr', 7))"
proof -
  let ?lib = "sampleLib (\<lambda>q. Inl ''connection refused'')"
  have f: "Fetch ?lib ''health.service(svc-echo)'' = Inl ''connection refused''"
    by (simp add: sample_Fetch)
  have e: "fetched (clientSet sampleResolver) = []"
    by (simp add: sampleResolver_def)
  show ?thesis
    using fetch_error_is_propagated_without_retry [OF sample_miss_query sample_miss f,
        of sampleIntn 7] sample_miss_query [of "\<lambda>q. Inl ''connection refused''"]
      sample_miss [of "\<lambda>q. Inl ''connection refused''"] f
    by (auto simp: e)
qed

text \<open>
  Claim C10. On a cache miss whose one-shot fetch fails, \<open>ResolveAll\<close> returns an error
  and leaves the cache and the watcher as they were: nothing is stored under the
  query's key and the query is not added to the watcher; the configuration is unchanged
  too.
\<close>

theorem fetch_error_stores_and_registers_nothing:
  assumes q: "healthServiceQuery lib cr (prefix cr @ TrimSuffix S (''.'' @ namespace cr)) = Inr q"
    and miss: "cache cr (String_of lib q) = None"
    and fetch: "Fetch lib q = Inl err"
  shows "\<exists>e cr'. ResolveAll lib cr S = Returned (Inl e, cr')
    \<and> cache cr' = cache cr \<and> cache cr' (String_of lib q) = None
    \<and> watcher cr' = watcher cr \<and> q \<notin> set (added (watcher cr')) - set (added (watcher cr))
    \<and> prefix cr' = prefix cr \<and> namespace cr' = namespace cr \<and> connect cr' = connect cr"
proof -
  let ?cr' = "cr\<lparr>clientSet := \<lparr>fetched = fetched (clientSet cr) @ [q]\<rparr>\<rparr>"
  have "ResolveAll lib cr S = Returned (Inl (External err), ?cr')"
    using q miss fetch by (rule ResolveAll_fetch_error)
  moreover have "cache ?cr' = cache cr" "watcher ?cr' = watcher cr"
    "prefix ?cr' = prefix cr" "namespace ?cr' = namespace cr" "connect ?cr' = connect cr"
    by simp_all
  ultimately show ?thesis
    using miss by (intro exI [of _ "External err"] exI [of _ ?cr']) simp
qed

theorem fetch_error_stores_and_registers_nothing_witness:
  "healthServiceQuery (sampleLib (\<lambda>q. Inl ''connection refused'')) sampleResolver
      (prefix sampleResolver @ TrimSuffix ''echo.openfaas-fn'' (''.'' @ namespace sampleResolver))
      = Inr ''health.service(svc-echo)''
   \<and> cache sampleResolver
        (String_of (sampleLib (\<lambda>q. Inl ''connection refused'')) ''health.service(svc-echo)'')
        = None
   \<and> Fetch (sampleLib (\<lambda>q. Inl ''connection refused'')) ''health.service(svc-echo)''
        = Inl ''connection refused''
   \<and> (\<exists>e cr'. ResolveAll (sampleLib (\<lambda>q. Inl ''connection refused'')) sampleResolver
          ''echo.openfaas-fn'' = Returned (Inl e, cr')
        \<and> cache cr' = Map.empty
        \<and> watcher cr' = \<lparr>added = [], stopped = False, MaxStale = 10000 * Millisecond\<rparr>)"
proof -
  let ?lib = "sampleLib (\<lambda>q. Inl ''connection refused'')"
  have f: "Fetch ?lib ''health.service(svc-echo)'' = Inl ''connection refused''"
    by (simp add: sample_Fetch)
  have e: "cache sampleResolver = Map.empty"
    "watcher sampleResolver = \<lparr>added = [], stopped = False, MaxStale = 10000 * Millisecond\<rparr>"
    by (simp_all add: sampleResolver_def NewWatcher_def)
  from fetch_error_stores_and_registers_nothing [OF sample_miss_query sample_miss f]
  have "\<exists>e cr'. ResolveAll ?lib sampleResolver ''echo.openfaas-fn'' = Returned (Inl e, cr')
        \<and> cache cr' = Map.empty
        \<and> watcher cr' = \<lparr>added = [], stopped = False, MaxStale = 10000 * Millisecond\<rparr>"
    unfolding e by blast
  then show ?thesis
    using sample_miss_query [of "\<lambda>q. Inl ''connection refused''"]
      sample_miss [of "\<lambda>q. Inl ''connection refused''"] f
    by blast
qed

subsection \<open>The watch loop\<close>

lemma spec_movedInstances:
  "spec_addresses movedInstances = [''10.0.0.4:9000'', ''10.0.0.3:8082'']"
  by (simp add: spec_addresses_def movedInstances_def spec_eligible_def hostport_def
      passing_def Sprint_int_def decimal.simps)




lemma watch_other_keys:
  "watch lib cr later = Returned cr' \<Longrightarrow>
   \<forall>p\<in>set later. String_of lib (fst p) \<noteq> k \<Longrightarrow> cache cr' k = cache cr k"
  by (induction lib cr later rule: watch.induct) (auto simp: updateCatalog_item)

lemma watch_append_Returned:
  "watch lib cr (pushes @ rest) = Returned cr' \<Longrightarrow>
   \<exists>cr1. watch lib cr pushes = Returned cr1 \<and> watch lib cr1 rest = Returned cr'"
  by (induction lib cr pushes rule: watch.induct) simp_all




text \<open>
  Claim C9. When the watch loop has processed an instance list for the query \<open>q\<close>, and
  whatever it processed before and after (provided that no later value has the key of
  \<open>q\<close>), the cache holds under the key of \<open>q\<close> the item filtered from that list (the
  same item \<open>updateCatalog\<close> builds on the fetch path, whatever was there before), and
  the next \<open>ResolveAll\<close> for a name whose query has that key returns these addresses
  and leaves the resolver as it is: no fetch, no invalidation.
\<close>

theorem push_replaces_item_for_next_resolve:
  assumes w: "watch lib cr (pushes @ (q, HealthServices services) # later) = Returned cr'"
    and later: "\<forall>p\<in>set later. String_of lib (fst p) \<noteq> String_of lib q"
    and q': "healthServiceQuery lib cr' (prefix cr' @ TrimSuffix S (''.'' @ namespace cr'))
               = Inr q'"
    and same: "String_of lib q' = String_of lib q"
  shows "cache cr' (String_of lib q) =
      Some \<lparr>serviceQuery = q, certURI = None, addresses = spec_addresses services\<rparr>
    \<and> ResolveAll lib cr' S =
        Returned (Inr (spec_addresses services,
          \<lparr>Host = [], Namespace = namespace cr', Datacenter = ''dc1'',
            Service = prefix cr' @ TrimSuffix S (''.'' @ namespace cr')\<rparr>), cr')"
proof -
  from watch_append_Returned [OF w]
  obtain cr1 where "watch lib cr1 ((q, HealthServices services) # later) = Returned cr'"
    by blast
  then have l: "watch lib (snd (updateCatalog lib cr1 q services)) later = Returned cr'"
    by simp
  have "cache cr' (String_of lib q) =
      cache (snd (updateCatalog lib cr1 q services)) (String_of lib q)"
    using l later by (rule watch_other_keys)
  then have c: "cache cr' (String_of lib q) =
      Some \<lparr>serviceQuery = q, certURI = None, addresses = spec_addresses services\<rparr>"
    by (simp add: updateCatalog_item)
  then have "cache cr' (String_of lib q') =
      Some \<lparr>serviceQuery = q, certURI = None, addresses = spec_addresses services\<rparr>"
    by (simp only: same)
  from ResolveAll_hit [OF q' this] c show ?thesis
    by simp
qed

theorem push_replaces_item_for_next_resolve_witness:
  "watch (sampleLib (\<lambda>q. Inl ''connection refused'')) sampleResolved
      ([(''health.service(svc-echo)'', HealthServices unhealthyInstances)]
       @ (''health.service(svc-echo)'', HealthServices movedInstances)
       # [(''health.service(svc-hello)'', HealthServices threeInstances)]) =
     Returned (sampleResolved\<lparr>cache :=
        [''health.service(svc-echo)'' \<mapsto>
           echoItem\<lparr>addresses := [''10.0.0.4:9000'', ''10.0.0.3:8082'']\<rparr>,
         ''health.service(svc-hello)'' \<mapsto>
           echoItem\<lparr>serviceQuery := ''health.service(svc-hello)''\<rparr>]\<rparr>)
   \<and> String_of (sampleLib (\<lambda>q. Inl ''connection refused''))
        (fst (''health.service(svc-hello)'', HealthServices threeInstances))
       \<noteq> String_of (sampleLib (\<lambda>q. Inl ''connection refused'')) ''health.service(svc-echo)''
   \<and> ResolveAll (sampleLib (\<lambda>q. Inl ''connection refused''))
       (sampleResolved\<lparr>cache :=
        [''health.service(svc-echo)'' \<mapsto>
           echoItem\<lparr>addresses := [''10.0.0.4:9000'', ''10.0.0.3:8082'']\<rparr>,
         ''health.service(svc-hello)'' \<mapsto>
           echoItem\<lparr>serviceQuery := ''health.service(svc-hello)''\<rparr>]\<rparr>)
       ''echo.openfaas-fn'' =
     Returned (Inr ([''10.0.0.4:9000'', ''10.0.0.3:8082''], echoURI),
       sampleResolved\<lparr>cache :=
        [''health.service(svc-echo)'' \<mapsto>
           echoItem\<lparr>addresses := [''10.0.0.4:9000'', ''10.0.0.3:8082'']\<rparr>,
         ''health.service(svc-hello)'' \<mapsto>
           echoItem\<lparr>serviceQuery := ''health.service(svc-hello)''\<rparr>]\<rparr>)"
proof -
  let ?lib = "sampleLib (\<lambda>q. Inl ''connection refused'')"
  let ?cr' = "sampleResolved\<lparr>cache :=
        [''health.service(svc-echo)'' \<mapsto>
           echoItem\<lparr>addresses := [''10.0.0.4:9000'', ''10.0.0.3:8082'']\<rparr>,
         ''health.service(svc-hello)'' \<mapsto>
           echoItem\<lparr>serviceQuery := ''health.service(svc-hello)''\<rparr>]\<rparr>"
  let ?later = "[(''health.service(svc-hello)'', HealthServices threeInstances)]"
  have w: "watch ?lib sampleResolved
      ([(''health.service(svc-echo)'', HealthServices unhealthyInstances)]
       @ (''health.service(svc-echo)'', HealthServices movedInstances) # ?later)
      = Returned ?cr'"
    by (simp add: updateCatalog_item sample_String_of spec_movedInstances spec_threeInstances
        spec_unhealthyInstances echoItem_def sampleResolved_def)
  have k: "String_of ?lib (fst (''health.service(svc-hello)'', HealthServices threeInstances))
       \<noteq> String_of ?lib ''health.service(svc-echo)''"
    by (simp add: sample_String_of)
  then have l: "\<forall>p\<in>set ?later. String_of ?lib (fst p) \<noteq> String_of ?lib ''health.service(svc-echo)''"
    by simp
  have n: "prefix ?cr' @ TrimSuffix ''echo.openfaas-fn'' (''.'' @ namespace ?cr') = ''svc-echo''"
    using sample_normalized' by (simp add: sampleResolved_def)
  have q: "healthServiceQuery ?lib ?cr'
      (prefix ?cr' @ TrimSuffix ''echo.openfaas-fn'' (''.'' @ namespace ?cr'))
      = Inr ''health.service(svc-echo)''"
    unfolding n by (simp add: healthServiceQuery_def sampleLib_def sampleResolved_def)
  from push_replaces_item_for_next_resolve [OF w l q refl]
  have "ResolveAll ?lib ?cr' ''echo.openfaas-fn'' =
      Returned (Inr (spec_addresses movedInstances,
        \<lparr>Host = [], Namespace = namespace ?cr', Datacenter = ''dc1'',
          Service = prefix ?cr' @ TrimSuffix ''echo.openfaas-fn'' (''.'' @ namespace ?cr')\<rparr>),
        ?cr')"
    by blast
  then have "ResolveAll ?lib ?cr' ''echo.openfaas-fn'' =
      Returned (Inr ([''10.0.0.4:9000'', ''10.0.0.3:8082''], echoURI), ?cr')"
    unfolding n spec_movedInstances by (simp add: echoURI_def sampleResolved_def)
  with w k show ?thesis by blast
qed

subsection \<open>The reset loop\<close>

lemma reset_body_eq:
  "reset_body cr =
     (watcher cr\<lparr>stopped := True\<rparr>,
      cr\<lparr>cache := Map.empty,
         watcher := \<lparr>added = [], stopped = False, MaxStale = 10000 * Millisecond\<rparr>\<rparr>)"
  by (simp add: reset_body_def Stop_def NewWatcher_def Let_def)

lemma reset_loop:
  "length (fst (reset cr ticks)) = length ticks
   \<and> (\<forall>w\<in>set (fst (reset cr ticks)). stopped w)
   \<and> (ticks \<noteq> [] \<longrightarrow> cache (snd (reset cr ticks)) = Map.empty
        \<and> added (watcher (snd (reset cr ticks))) = [])"
proof (induction ticks arbitrary: cr)
  case Nil
  show ?case by simp
next
  case (Cons tick ticks)
  let ?cr1 = "snd (reset_body cr)"
  have step: "reset cr (tick # ticks) =
      (fst (reset_body cr) # fst (reset ?cr1 ticks), snd (reset ?cr1 ticks))"
    by (simp add: case_prod_beta Let_def)
  have old: "stopped (fst (reset_body cr))"
    by (simp add: reset_body_eq)
  have now: "cache ?cr1 = Map.empty" "added (watcher ?cr1) = []"
    by (simp_all add: reset_body_eq)
  show ?case
  proof (cases ticks)
    case Nil
    with step old now show ?thesis by simp
  next
    case (Cons t ts)
    with Cons.IH [of ?cr1] step old show ?thesis by simp
  qed
qed

text \<open>
  Claim C8. One round of the reset loop stops the watcher in use (with every query added
  to it), and leaves a resolver with an empty cache and a fresh watcher with no query
  added. The next \<open>ResolveAll\<close> of any name whose query the catalog answers is then a
  cache miss: it fetches exactly once, stores the item and adds the query to the new
  watcher. After any positive number of ticks the cache is empty and every watcher
  replaced on the way was stopped. The ticker's period is the constant 30 minutes.
\<close>

theorem reset_empties_cache_and_drops_subscriptions:
  "stopped (fst (reset_body cr)) \<and> added (fst (reset_body cr)) = added (watcher cr)
   \<and> cache (snd (reset_body cr)) = Map.empty
   \<and> added (watcher (snd (reset_body cr))) = [] \<and> \<not> stopped (watcher (snd (reset_body cr)))
   \<and> (healthServiceQuery lib cr (prefix cr @ TrimSuffix S (''.'' @ namespace cr)) = Inr q
        \<and> Fetch lib q = Inr (HealthServices services) \<longrightarrow>
      (\<exists>uri cr2. ResolveAll lib (snd (reset_body cr)) S =
          Returned (Inr (spec_addresses services, uri), cr2)
        \<and> fetched (clientSet cr2) = fetched (clientSet cr) @ [q]
        \<and> cache cr2 = [String_of lib q \<mapsto>
            \<lparr>serviceQuery = q, certURI = None, addresses = spec_addresses services\<rparr>]
        \<and> added (watcher cr2) = [q]))
   \<and> (ticks \<noteq> [] \<longrightarrow>
        cache (snd (reset cr ticks)) = Map.empty
        \<and> added (watcher (snd (reset cr ticks))) = []
        \<and> length (fst (reset cr ticks)) = length ticks
        \<and> (\<forall>w\<in>set (fst (reset cr ticks)). stopped w))
   \<and> resetPeriod = 30 * 60 * 1000000000"
proof -
  let ?cr1 = "snd (reset_body cr)"
  have body: "stopped (fst (reset_body cr))" "added (fst (reset_body cr)) = added (watcher cr)"
    "cache ?cr1 = Map.empty" "added (watcher ?cr1) = []" "\<not> stopped (watcher ?cr1)"
    by (simp_all add: reset_body_eq)
  have next_resolve: "\<exists>uri cr2. ResolveAll lib ?cr1 S =
          Returned (Inr (spec_addresses services, uri), cr2)
        \<and> fetched (clientSet cr2) = fetched (clientSet cr) @ [q]
        \<and> cache cr2 = [String_of lib q \<mapsto>
            \<lparr>serviceQuery = q, certURI = None, addresses = spec_addresses services\<rparr>]
        \<and> added (watcher cr2) = [q]"
    if q: "healthServiceQuery lib cr (prefix cr @ TrimSuffix S (''.'' @ namespace cr)) = Inr q"
      and f: "Fetch lib q = Inr (HealthServices services)"
  proof -
    have q1: "healthServiceQuery lib ?cr1 (prefix ?cr1 @ TrimSuffix S (''.'' @ namespace ?cr1))
        = Inr q"
      using q by (simp add: reset_body_eq healthServiceQuery_def split: if_splits)
    have m: "cache ?cr1 (String_of lib q) = None"
      by (simp add: reset_body_eq)
    show ?thesis
      unfolding ResolveAll_miss [OF q1 m f]
      by (simp add: reset_body_eq Add_def)
  qed
  have period: "resetPeriod = 30 * 60 * 1000000000"
    by (simp add: resetPeriod_def Minute_def Millisecond_def)
  from body next_resolve reset_loop [of cr ticks] period show ?thesis
    by blast
qed

theorem reset_empties_cache_and_drops_subscriptions_witness:
  "fst (reset_body sampleResolved) =
      \<lparr>added = [''health.service(svc-echo)''], stopped = True, MaxStale = 10000 * Millisecond\<rparr>
   \<and> snd (reset_body sampleResolved) = sampleResolver\<lparr>clientSet := clientSet sampleResolved\<rparr>
   \<and> healthServiceQuery (sampleLib (\<lambda>q. Inr (HealthServices movedInstances))) sampleResolved
        (prefix sampleResolved @ TrimSuffix ''echo.openfaas-fn'' (''.'' @ namespace sampleResolved))
        = Inr ''health.service(svc-echo)''
   \<and> Fetch (sampleLib (\<lambda>q. Inr (HealthServices movedInstances))) ''health.service(svc-echo)''
        = Inr (HealthServices movedInstances)
   \<and> (\<exists>uri cr2. ResolveAll (sampleLib (\<lambda>q. Inr (HealthServices movedInstances)))
          (snd (reset_body sampleResolved)) ''echo.openfaas-fn'' =
          Returned (Inr ([''10.0.0.4:9000'', ''10.0.0.3:8082''], uri), cr2)
        \<and> fetched (clientSet cr2) = [''health.service(svc-echo)'', ''health.service(svc-echo)'']
        \<and> added (watcher cr2) = [''health.service(svc-echo)''])
   \<and> [(), ()] \<noteq> []
   \<and> cache (snd (reset sampleResolved [(), ()])) = Map.empty
   \<and> length (fst (reset sampleResolved [(), ()])) = 2"
proof -
  let ?lib = "sampleLib (\<lambda>q. Inr (HealthServices movedInstances))"
  have b: "fst (reset_body sampleResolved) =
      \<lparr>added = [''health.service(svc-echo)''], stopped = True, MaxStale = 10000 * Millisecond\<rparr>"
    "snd (reset_body sampleResolved) = sampleResolver\<lparr>clientSet := clientSet sampleResolved\<rparr>"
    by (simp_all add: reset_body_eq sampleResolved_def sampleResolver_def NewWatcher_def)
  have q: "healthServiceQuery ?lib sampleResolved
      (prefix sampleResolved @ TrimSuffix ''echo.openfaas-fn'' (''.'' @ namespace sampleResolved))
      = Inr ''health.service(svc-echo)''"
    unfolding sample_normalized' by (rule sample_query')
  have f: "Fetch ?lib ''health.service(svc-echo)'' = Inr (HealthServices movedInstances)"
    by (simp add: sample_Fetch)
  have e: "fetched (clientSet sampleResolved) = [''health.service(svc-echo)'']"
    by (simp add: sampleResolved_def)
  note T = reset_empties_cache_and_drops_subscriptions
    [of sampleResolved ?lib "''echo.openfaas-fn''" "''health.service(svc-echo)''" movedInstances
      "[(), ()]"]
  from T q f have "\<exists>uri cr2. ResolveAll ?lib (snd (reset_body sampleResolved))
          ''echo.openfaas-fn'' = Returned (Inr ([''10.0.0.4:9000'', ''10.0.0.3:8082''], uri), cr2)
        \<and> fetched (clientSet cr2) = [''health.service(svc-echo)'', ''health.service(svc-echo)'']
        \<and> added (watcher cr2) = [''health.service(svc-echo)'']"
    unfolding spec_movedInstances e by auto
  moreover from T have "cache (snd (reset sampleResolved [(), ()])) = Map.empty"
    "length (fst (reset sampleResolved [(), ()])) = 2"
    by simp_all
  ultimately show ?thesis
    using b q f by blast
qed

end
